theory Spec2Isabelle
  imports Main "HOL-Library.AList" "HOL-Library.Word"
begin

section \<open>Python strings\<close>

text \<open>
  Commands, player names and skill labels are Python \<open>str\<close> values. They are modelled as
  \<open>string\<close> over the ASCII range, where \<open>str.lower\<close> works character by character and
  \<open>str.isspace\<close> holds for the ten characters listed below. The matching logic applies \<open>lower\<close>
  to both sides of every comparison.
\<close>

definition ascii_uppercase :: string where
  "ascii_uppercase = ''ABCDEFGHIJKLMNOPQRSTUVWXYZ''"

definition ascii_lowercase :: string where
  "ascii_lowercase = ''abcdefghijklmnopqrstuvwxyz''"

definition lower_char :: "char \<Rightarrow> char" where
  "lower_char c = (case map_of (zip ascii_uppercase ascii_lowercase) c of Some d \<Rightarrow> d | None \<Rightarrow> c)"

text \<open>\<open>s.lower()\<close>\<close>

definition lower :: "string \<Rightarrow> string" where
  "lower s = map lower_char s"

text \<open>\<open>c.isspace()\<close>: tab, line feed, vertical tab, form feed, carriage return, the four
  separators \<open>0x1C\<close> to \<open>0x1F\<close>, and the space.\<close>

definition isspace :: "char \<Rightarrow> bool" where
  "isspace c = (c \<in> set [CHR 0x09, CHR 0x0A, CHR 0x0B, CHR 0x0C, CHR 0x0D,
                          CHR 0x1C, CHR 0x1D, CHR 0x1E, CHR 0x1F, CHR 0x20])"

text \<open>\<open>s.strip()\<close>\<close>

definition strip :: "string \<Rightarrow> string" where
  "strip s = rev (dropWhile isspace (rev (dropWhile isspace s)))"

text \<open>\<open>s.split()\<close> with no separator: the maximal runs of non-whitespace characters, in order.
  The first argument of \<open>split_from\<close> is the word read so far.\<close>

fun split_from :: "string \<Rightarrow> string \<Rightarrow> string list" where
  "split_from w [] = (if w = [] then [] else [w])"
| "split_from w (c # cs) =
     (if isspace c then (if w = [] then split_from [] cs else w # split_from [] cs)
      else split_from (w @ [c]) cs)"

definition split :: "string \<Rightarrow> string list" where
  "split s = split_from [] s"

text \<open>\<open>s.startswith(n)\<close> and the substring test \<open>n in s\<close>.\<close>

fun startswith :: "string \<Rightarrow> string \<Rightarrow> bool" where
  "startswith s [] = True"
| "startswith [] (n # ns) = False"
| "startswith (c # cs) (n # ns) = (c = n \<and> startswith cs ns)"

fun str_in :: "string \<Rightarrow> string \<Rightarrow> bool" where
  "str_in n [] = (n = [])"
| "str_in n (c # cs) = (startswith (c # cs) n \<or> str_in n cs)"

section \<open>The skill enumeration and the stats frame\<close>

definition VOLLEYBALL_SKILLS :: "string list" where
  "VOLLEYBALL_SKILLS =
     [''Serve Attempt'', ''Serve Ace'', ''Serve Error'',
      ''Pass Zero'', ''Pass One'', ''Pass Two'', ''Pass Three'',
      ''Spike Attempt'', ''Kill'', ''Spike Error'',
      ''Block'', ''Assist'', ''Ball handling Error'']"

text \<open>
  A cell of the ledger. A column built from Python integers is an \<open>int64\<close> column: its cells
  are 64-bit two's complement integers, and addition wraps. A column that lacks a value for
  some row is a \<open>float64\<close> column: the cell without a value holds NaN, the others hold the
  double equal to their count. The counts are integers, so a double is given by the integer
  it equals (an integer that needs more than 53 significant bits is no double and is in no
  cell).
\<close>

datatype cell_value = Int64 "64 word" | Float64 int | NaN

text \<open>
  The spacing of the doubles around an integer of magnitude \<open>a\<close> (1 below \<open>2^53\<close>, then
  doubling with every further bit), and the double nearest to an integer, ties going to the
  even mantissa: the result of a \<open>float64\<close> addition whose exact sum is that integer.
\<close>

function ulp :: "nat \<Rightarrow> nat" where
  "ulp a = (if a < 2 ^ 53 then 1 else 2 * ulp (a div 2))"
  by pat_completeness auto
termination
  by (relation "measure (\<lambda>a. a)") auto

declare ulp.simps [simp del]

definition round_double :: "int \<Rightarrow> int" where
  "round_double n =
     (let a = nat \<bar>n\<bar>;
          q = ulp a;
          k = a div q;
          r = a mod q;
          m = (if 2 * r < q then k
               else if q < 2 * r then k + 1
               else if even k then k else k + 1)
      in sgn n * int (m * q))"

text \<open>\<open>v + 1\<close> on the value read from a cell: NaN plus one is NaN.\<close>

fun add_one :: "cell_value \<Rightarrow> cell_value" where
  "add_one (Int64 w) = Int64 (w + 1)"
| "add_one (Float64 v) = Float64 (round_double (v + 1))"
| "add_one NaN = NaN"

text \<open>\<open>int(count)\<close>: a NaN raises \<open>ValueError\<close>.\<close>

fun int_of_cell :: "cell_value \<Rightarrow> int option" where
  "int_of_cell (Int64 w) = Some (sint w)"
| "int_of_cell (Float64 v) = Some v"
| "int_of_cell NaN = None"

text \<open>
  The ledger is a pandas \<open>DataFrame\<close>: a list of row labels (the index, one label per row,
  duplicates allowed) and the columns in their order, each column a label with one cell per
  row. pandas keeps every column as long as the index and gives a column one type: its cells
  are all \<open>Int64\<close>, or all \<open>Float64\<close> or \<open>NaN\<close>.
\<close>

record dataframe =
  df_index :: "string list"
  df_data :: "(string \<times> cell_value list) list"

definition df_columns :: "dataframe \<Rightarrow> string list" where
  "df_columns df = map fst (df_data df)"

text \<open>The value in row number \<open>i\<close> of column \<open>c\<close>, when the frame has that cell.\<close>

definition cell :: "dataframe \<Rightarrow> nat \<Rightarrow> string \<Rightarrow> cell_value option" where
  "cell df i c =
     (if i < length (df_index df) then
        (case map_of (df_data df) c of
           None \<Rightarrow> None
         | Some vs \<Rightarrow> if i < length vs then Some (vs ! i) else None)
      else None)"

text \<open>The labels of the cells of a frame: one (row label, column label) pair per cell.\<close>

definition cell_labels :: "dataframe \<Rightarrow> (string \<times> string) list" where
  "cell_labels df = List.product (df_index df) (df_columns df)"

text \<open>
  \<open>create_stats_dataframe\<close>: the dictionary \<open>data\<close> receives one key per skill, in the order of
  the enumeration (a key assigned twice would keep its first position), then the frame is built
  with the players as index. The lists of Python zeros make \<open>int64\<close> columns.
\<close>

definition create_stats_dataframe :: "string list \<Rightarrow> dataframe" where
  "create_stats_dataframe players =
     (let data = foldl (\<lambda>data skill. AList.update skill (replicate (length players) (Int64 0)) data)
                   [] VOLLEYBALL_SKILLS
      in \<lparr>df_index = players, df_data = data\<rparr>)"

text \<open>
  \<open>df.loc[player_name, skill] += 1\<close>: in the column \<open>skill\<close>, the cell of every row labelled
  \<open>player_name\<close> is read, one is added and the sum is written back (one row when the index has
  no duplicate).
\<close>

definition loc_increment :: "dataframe \<Rightarrow> string \<Rightarrow> string \<Rightarrow> dataframe" where
  "loc_increment df player_name skill =
     df\<lparr>df_data :=
          map (\<lambda>(c, vs).
                 if c = skill
                 then (c, map (\<lambda>(label, v). if label = player_name then add_one v else v)
                            (zip (df_index df) vs))
                 else (c, vs))
              (df_data df)\<rparr>"

text \<open>\<open>df[skill] = 0\<close> for a column the frame does not have yet: a new last column of
  \<open>int64\<close> zeros.\<close>

definition add_zero_column :: "dataframe \<Rightarrow> string \<Rightarrow> dataframe" where
  "add_zero_column df skill =
     df\<lparr>df_data := df_data df @ [(skill, replicate (length (df_index df)) (Int64 0))]\<rparr>"

section \<open>The durable store\<close>

text \<open>
  The tables \<open>players\<close> and \<open>stats\<close> of \<open>database.py\<close>, and a connection that can break:
  \<open>statements_left\<close> is the number of statements the store still answers; every later
  statement raises. A transaction that raised is rolled back.
\<close>

record player_row =
  pl_id :: int
  pl_name :: string
  pl_team_id :: int

record stat_row =
  stat_id :: int
  stat_player_id :: int
  stat_skill_name :: string
  stat_count :: int

record store =
  tbl_players :: "player_row list"
  tbl_stats :: "stat_row list"
  statements_left :: nat

datatype 'a attempt = Raises | Returns 'a

definition statement :: "store \<Rightarrow> store option" where
  "statement db =
     (if statements_left db = 0 then None
      else Some (db\<lparr>statements_left := statements_left db - 1\<rparr>))"

text \<open>\<open>get_player_by_name\<close>: the first player of that name, of any team.\<close>

definition get_player_by_name :: "string \<Rightarrow> store \<Rightarrow> player_row option attempt \<times> store" where
  "get_player_by_name name db =
     (case statement db of
        None \<Rightarrow> (Raises, db)
      | Some db1 \<Rightarrow> (Returns (find (\<lambda>p. pl_name p = name) (tbl_players db1)), db1))"

text \<open>\<open>update_player_stat\<close>: one UPDATE and the commit; an exception is caught inside, the
  transaction rolled back and \<open>False\<close> returned.\<close>

definition update_player_stat :: "int \<Rightarrow> string \<Rightarrow> store \<Rightarrow> bool \<times> store" where
  "update_player_stat pid skill_name db =
     (case statement db of
        None \<Rightarrow> (False, db)
      | Some db1 \<Rightarrow>
          (let db2 = db1\<lparr>tbl_stats :=
                       map (\<lambda>r. if stat_player_id r = pid \<and> stat_skill_name r = skill_name
                                then r\<lparr>stat_count := stat_count r + 1\<rparr> else r)
                           (tbl_stats db1)\<rparr>
           in case statement db2 of
                None \<Rightarrow> (False, db\<lparr>statements_left := 0\<rparr>)
              | Some db3 \<Rightarrow> (True, db3)))"

section \<open>Session state and the command handler\<close>

record session_state =
  stats_df :: "dataframe option"
  players :: "string list"
  listening :: bool
  last_command :: string
  command_history :: "string list"
  current_team_id :: "int option"

text \<open>The argument of \<open>handle_voice_command\<close> is any Python value; all that matters of a
  value that is not a \<open>str\<close> is that it is not one.\<close>

datatype py_value = PyStr string | PyOther

text \<open>
  The two scanning loops of \<open>handle_voice_command\<close> (over the players, then over the skills)
  have the same shape: the first name of the list whose lowercased form occurs in the
  lowercased command, and \<open>None\<close> when the loop ends without a \<open>break\<close>.
\<close>

fun first_match :: "string list \<Rightarrow> string \<Rightarrow> string option" where
  "first_match [] command = None"
| "first_match (name # names) command =
     (if str_in (lower name) (lower command) then Some name else first_match names command)"

text \<open>
  The handler returns \<open>None\<close> on every path; the model records which path was taken:
  the four early returns, the \<open>AttributeError\<close> raised by \<open>stats_df.index\<close> when there is no
  frame, the fall-through when the frame lacks the row or the column, and the update.
\<close>

datatype outcome =
    Rejected
  | TooFewWords
  | NoPlayer
  | NoSkill
  | AttributeError string string
  | NoCell string string
  | Updated string string

text \<open>The (player, skill) pair the scan arrived at, if it arrived at one.\<close>

fun resolution :: "outcome \<Rightarrow> (string \<times> string) option" where
  "resolution (AttributeError p s) = Some (p, s)"
| "resolution (NoCell p s) = Some (p, s)"
| "resolution (Updated p s) = Some (p, s)"
| "resolution _ = None"

text \<open>\<open>if st.session_state.current_team_id:\<close> holds for an identifier other than \<open>None\<close> and 0.\<close>

definition active_team_id :: "session_state \<Rightarrow> int option" where
  "active_team_id st =
     (case current_team_id st of None \<Rightarrow> None | Some t \<Rightarrow> if t = 0 then None else Some t)"

text \<open>The best-effort write to the store after the increment (the \<open>try\<close> block): a raised
  exception ends in a warning and the store as it was.\<close>

definition mirror_increment :: "string \<Rightarrow> string \<Rightarrow> store \<Rightarrow> store" where
  "mirror_increment player_name skill db =
     (case get_player_by_name player_name db of
        (Raises, db1) \<Rightarrow> db1
      | (Returns None, db1) \<Rightarrow> db1
      | (Returns (Some player), db1) \<Rightarrow> snd (update_player_stat (pl_id player) skill db1))"

text \<open>Lines 92 to 110: the membership test, the increment, the store write when the session
  has a team identifier, and \<open>st.rerun()\<close>, which ends the run of the script and keeps the
  session state.\<close>

definition update_stats ::
    "string \<Rightarrow> string \<Rightarrow> session_state \<Rightarrow> store \<Rightarrow> outcome \<times> session_state \<times> store" where
  "update_stats player_name skill st db =
     (case stats_df st of
        None \<Rightarrow> (AttributeError player_name skill, st, db)
      | Some df \<Rightarrow>
          if player_name \<in> set (df_index df) \<and> skill \<in> set (df_columns df)
          then (Updated player_name skill,
                st\<lparr>stats_df := Some (loc_increment df player_name skill)\<rparr>,
                (if active_team_id st = None then db
                 else mirror_increment player_name skill db))
          else (NoCell player_name skill, st, db))"

text \<open>Lines 71 to 90: the two scans, each followed by its \<open>if not ...: return\<close>.\<close>

definition match_command ::
    "string \<Rightarrow> session_state \<Rightarrow> store \<Rightarrow> outcome \<times> session_state \<times> store" where
  "match_command command st db =
     (case first_match (players st) command of
        None \<Rightarrow> (NoPlayer, st, db)
      | Some player_name \<Rightarrow>
          if player_name = [] then (NoPlayer, st, db)
          else (case first_match VOLLEYBALL_SKILLS command of
                  None \<Rightarrow> (NoSkill, st, db)
                | Some skill \<Rightarrow>
                    if skill = [] then (NoSkill, st, db)
                    else update_stats player_name skill st db))"

definition handle_voice_command ::
    "py_value \<Rightarrow> session_state \<Rightarrow> store \<Rightarrow> outcome \<times> session_state \<times> store" where
  "handle_voice_command command_value st db =
     (case command_value of
        PyOther \<Rightarrow> (Rejected, st, db)
      | PyStr command \<Rightarrow>
          if command = [] then (Rejected, st, db)
          else
            (let st1 = st\<lparr>last_command := command\<rparr>;
                 st2 = st1\<lparr>command_history := take 10 (command # command_history st1)\<rparr>;
                 words = split (lower (strip command))
             in if length words < 2 then (TooFewWords, st2, db)
                else match_command command st2 db))"

section \<open>The buttons of the tracking page\<close>

text \<open>
  \<open>save_current_stats\<close>: everything runs inside one \<open>try\<close>; whatever is raised there is
  caught, printed and followed by a rollback, so the caller never sees an exception.
  \<open>player_name_to_id\<close> is the dictionary comprehension (a later player of the same name
  replaces an earlier one), \<open>iterrows\<close> the rows of the frame with their items.
\<close>

definition player_name_to_id :: "player_row list \<Rightarrow> (string \<rightharpoonup> int)" where
  "player_name_to_id ps = map_of (rev (map (\<lambda>p. (pl_name p, pl_id p)) ps))"

text \<open>
  \<open>df.iterrows()\<close> gives each row as one series of a single type: when the frame has a
  \<open>float64\<close> column, the values of its \<open>int64\<close> columns arrive converted to doubles.
\<close>

fun is_int64 :: "cell_value \<Rightarrow> bool" where
  "is_int64 (Int64 w) = True"
| "is_int64 _ = False"

fun to_float64 :: "cell_value \<Rightarrow> cell_value" where
  "to_float64 (Int64 w) = Float64 (round_double (sint w))"
| "to_float64 v = v"

definition has_float_column :: "dataframe \<Rightarrow> bool" where
  "has_float_column df = (\<exists>(c, vs) \<in> set (df_data df). \<exists>v \<in> set vs. \<not> is_int64 v)"

definition iterrows :: "dataframe \<Rightarrow> (string \<times> (string \<times> cell_value) list) list" where
  "iterrows df =
     map (\<lambda>i. (df_index df ! i,
               map (\<lambda>(c, vs). (c, if has_float_column df then to_float64 (vs ! i) else vs ! i))
                   (df_data df)))
         [0 ..< length (df_index df)]"

text \<open>The identifier the store gives a new row of \<open>stats\<close>.\<close>

definition fresh_stat_id :: "stat_row list \<Rightarrow> int" where
  "fresh_stat_id rows = foldr (\<lambda>r m. max (stat_id r) m) rows 0 + 1"

text \<open>
  Inside the \<open>try\<close> a step either returns the store (\<open>Inr\<close>) or raises (\<open>Inl\<close>, with the
  number of statements the store would still answer: 0 when it was a statement that raised).

  One cell, its count already converted: the UPDATE by player and skill; when it touched no
  row, the INSERT with its flush and the UPDATE by identifier.
\<close>

definition save_cell :: "int \<Rightarrow> string \<Rightarrow> int \<Rightarrow> store \<Rightarrow> nat + store" where
  "save_cell pid skill_name count db =
     (case statement db of
        None \<Rightarrow> Inl 0
      | Some db1 \<Rightarrow>
          (let hit = (\<lambda>r. stat_player_id r = pid \<and> stat_skill_name r = skill_name);
               rowcount = length (filter hit (tbl_stats db1));
               db2 = db1\<lparr>tbl_stats :=
                       map (\<lambda>r. if hit r then r\<lparr>stat_count := count\<rparr> else r) (tbl_stats db1)\<rparr>
           in if rowcount = 0 then
                (case statement db2 of
                   None \<Rightarrow> Inl 0
                 | Some db3 \<Rightarrow>
                     (let new_id = fresh_stat_id (tbl_stats db3);
                          new_stat = \<lparr>stat_id = new_id, stat_player_id = pid,
                                      stat_skill_name = skill_name, stat_count = 0\<rparr>;
                          db4 = db3\<lparr>tbl_stats := tbl_stats db3 @ [new_stat]\<rparr>
                      in (case statement db4 of
                            None \<Rightarrow> Inl 0
                          | Some db5 \<Rightarrow>
                              Inr (db5\<lparr>tbl_stats :=
                                     map (\<lambda>r. if stat_id r = new_id
                                               then r\<lparr>stat_count := count\<rparr> else r)
                                         (tbl_stats db5)\<rparr>))))
              else Inr db2))"

text \<open>The items of one row. \<open>int(count)\<close> is evaluated while the UPDATE is built, before any
  statement for that cell: on a NaN it raises \<open>ValueError\<close> with the store as it is.\<close>

fun save_row :: "int \<Rightarrow> (string \<times> cell_value) list \<Rightarrow> store \<Rightarrow> nat + store" where
  "save_row pid [] db = Inr db"
| "save_row pid ((skill_name, count) # items) db =
     (case int_of_cell count of
        None \<Rightarrow> Inl (statements_left db)
      | Some n \<Rightarrow>
          (case save_cell pid skill_name n db of
             Inl left \<Rightarrow> Inl left
           | Inr db1 \<Rightarrow> save_row pid items db1))"

fun save_rows ::
    "(string \<rightharpoonup> int) \<Rightarrow> (string \<times> (string \<times> cell_value) list) list \<Rightarrow> store
       \<Rightarrow> nat + store" where
  "save_rows ids [] db = Inr db"
| "save_rows ids ((player_name, row) # rows) db =
     (case ids player_name of
        None \<Rightarrow> save_rows ids rows db
      | Some pid \<Rightarrow>
          (case save_row pid row db of
             Inl left \<Rightarrow> Inl left
           | Inr db1 \<Rightarrow> save_rows ids rows db1))"

datatype save_log = Committed | ErrorPrinted

text \<open>The frame argument is \<open>None\<close> when the session has no frame: \<open>stats_df.iterrows()\<close> then
  raises inside the \<open>try\<close>, after the query of the players. The rollback gives back the tables
  as they were before the transaction.\<close>

definition save_current_stats :: "int \<Rightarrow> dataframe option \<Rightarrow> store \<Rightarrow> save_log \<times> store" where
  "save_current_stats team_id frame db =
     (case statement db of
        None \<Rightarrow> (ErrorPrinted, db\<lparr>statements_left := 0\<rparr>)
      | Some db1 \<Rightarrow>
          (let team = filter (\<lambda>p. pl_team_id p = team_id) (tbl_players db1)
           in case frame of
                None \<Rightarrow> (ErrorPrinted, db\<lparr>statements_left := statements_left db1\<rparr>)
              | Some df \<Rightarrow>
                  (case save_rows (player_name_to_id team) (iterrows df) db1 of
                     Inl left \<Rightarrow> (ErrorPrinted, db\<lparr>statements_left := left\<rparr>)
                   | Inr db2 \<Rightarrow>
                       (case statement db2 of
                          None \<Rightarrow> (ErrorPrinted, db\<lparr>statements_left := 0\<rparr>)
                        | Some db3 \<Rightarrow> (Committed, db3)))))"

datatype message = Success string | Warning string

text \<open>
  The ``Save Stats'' button. No exception leaves \<open>save_current_stats\<close>, so the \<open>except\<close>
  branch of the button is never entered and the success message follows in both cases; a
  failure of the store shows as the printed error only.
\<close>

definition save_stats_button ::
    "session_state \<Rightarrow> store \<Rightarrow> session_state \<times> store \<times> save_log option \<times> message" where
  "save_stats_button st db =
     (case active_team_id st of
        Some team_id \<Rightarrow>
          (case save_current_stats team_id (stats_df st) db of
             (log, db1) \<Rightarrow> (st, db1, Some log, Success ''Stats saved to database successfully!''))
      | None \<Rightarrow> (st, db, None, Warning ''Cannot save stats - team not stored in database''))"

text \<open>The ``Reset Stats'' button: a fresh frame over the roster, then the same save.\<close>

definition reset_stats_button ::
    "session_state \<Rightarrow> store \<Rightarrow> session_state \<times> store \<times> save_log option \<times> message" where
  "reset_stats_button st db =
     (let st1 = st\<lparr>stats_df := Some (create_stats_dataframe (players st))\<rparr>
      in case active_team_id st1 of
           Some team_id \<Rightarrow>
             (case save_current_stats team_id (stats_df st1) db of
                (log, db1) \<Rightarrow> (st1, db1, Some log, Success ''Stats reset and saved to database!''))
         | None \<Rightarrow> (st1, db, None, Success ''Stats reset in memory only!''))"

text \<open>
  The ``Load Team'' button of \<open>load_existing_team\<close>: \<open>loaded\<close> is the frame that
  \<open>db.get_all_stats_for_team\<close> returned; every skill of the enumeration that is not among its
  columns is added as a column of zeros.
\<close>

definition load_team :: "int \<Rightarrow> string list \<Rightarrow> dataframe \<Rightarrow> session_state \<Rightarrow> session_state" where
  "load_team team_id player_names loaded st =
     st\<lparr>current_team_id := Some team_id,
        players := player_names,
        stats_df := Some (foldl (\<lambda>df skill. if skill \<in> set (df_columns df) then df
                                               else add_zero_column df skill)
                                loaded VOLLEYBALL_SKILLS)\<rparr>"

text \<open>
  The ``Add Stat from Dropdowns'' button. A select box returns \<open>None\<close> when it has no option.
  The command is the selected player, a space and the selected skill.
\<close>

definition add_stat_from_dropdowns ::
    "string option \<Rightarrow> string option \<Rightarrow> session_state \<Rightarrow> store
       \<Rightarrow> outcome option \<times> session_state \<times> store" where
  "add_stat_from_dropdowns player_choice skill_choice st db =
     (case (player_choice, skill_choice) of
        (Some player_name, Some skill) \<Rightarrow>
          if player_name \<noteq> [] \<and> skill \<noteq> []
          then (case handle_voice_command (PyStr (player_name @ '' '' @ skill)) st db of
                  (out, st1, db1) \<Rightarrow> (Some out, st1, db1))
          else (None, st, db)
      | _ \<Rightarrow> (None, st, db))"

text \<open>The ``Add Stat from Text'' button.\<close>

definition add_stat_from_text ::
    "string \<Rightarrow> session_state \<Rightarrow> store \<Rightarrow> outcome option \<times> session_state \<times> store" where
  "add_stat_from_text text_command st db =
     (if text_command \<noteq> []
      then (case handle_voice_command (PyStr text_command) st db of
              (out, st1, db1) \<Rightarrow> (Some out, st1, db1))
      else (None, st, db))"

text \<open>
  The voice tab (lines 281 to 283). \<open>voice_recognition_component\<close> shows two notices and
  returns \<open>None\<close>; the handler is called only for a command that is not empty.
\<close>

definition voice_recognition_component :: "string option" where
  "voice_recognition_component = None"

definition voice_tab ::
    "session_state \<Rightarrow> store \<Rightarrow> outcome option \<times> session_state \<times> store" where
  "voice_tab st db =
     (case voice_recognition_component of
        None \<Rightarrow> (None, st, db)
      | Some command \<Rightarrow>
          if command \<noteq> []
          then (case handle_voice_command (PyStr command) st db of
                  (out, st1, db1) \<Rightarrow> (Some out, st1, db1))
          else (None, st, db))"

section \<open>What the specification's words say\<close>

text \<open>
  ``The first name of the list whose lowercased form is a substring of the lowercased
  command'': the name is in the list, it occurs in the command, and no name listed before its
  first occurrence does.
\<close>

definition is_first_match :: "string list \<Rightarrow> string \<Rightarrow> string \<Rightarrow> bool" where
  "is_first_match names command x =
     (x \<in> set names \<and> str_in (lower x) (lower command) \<and>
      (\<forall>q \<in> set (takeWhile (\<lambda>q. q \<noteq> x) names). \<not> str_in (lower q) (lower command)))"

text \<open>The ledger invariant of the data model: a row for every player of the roster and a
  column for every skill.\<close>

definition ledger_complete :: "session_state \<Rightarrow> bool" where
  "ledger_complete st =
     (case stats_df st of
        None \<Rightarrow> False
      | Some df \<Rightarrow> set (players st) \<subseteq> set (df_index df) \<and>
                  set VOLLEYBALL_SKILLS \<subseteq> set (df_columns df))"

text \<open>The count the session holds in row number \<open>i\<close> of column \<open>c\<close>.\<close>

definition ledger_cell :: "session_state \<Rightarrow> nat \<Rightarrow> string \<Rightarrow> cell_value option" where
  "ledger_cell st i c = (case stats_df st of None \<Rightarrow> None | Some df \<Rightarrow> cell df i c)"

text \<open>The labels of the cells the session holds.\<close>

definition ledger_labels :: "session_state \<Rightarrow> (string \<times> string) list" where
  "ledger_labels st = (case stats_df st of None \<Rightarrow> [] | Some df \<Rightarrow> cell_labels df)"

section \<open>Team setup\<close>

text \<open>The session state as the script initialises it (lines 24 to 40).\<close>

definition initial_session :: session_state where
  "initial_session =
     \<lparr>stats_df = None, players = [], listening = False, last_command = [],
      command_history = [], current_team_id = None\<rparr>"

text \<open>\<open>s.split('\n')\<close>: the pieces between the line feeds, empty ones included.\<close>

fun split_lines_from :: "string \<Rightarrow> string \<Rightarrow> string list" where
  "split_lines_from w [] = [w]"
| "split_lines_from w (c # cs) =
     (if c = CHR 0x0A then w # split_lines_from [] cs else split_lines_from (w @ [c]) cs)"

text \<open>The roster read from the setup form (line 169): the stripped lines that are not blank.\<close>

definition parse_players :: "string \<Rightarrow> string list" where
  "parse_players players_input =
     map strip (filter (\<lambda>p. strip p \<noteq> []) (split_lines_from [] players_input))"

text \<open>The assignments of the setup form when the team was stored under \<open>team_id\<close> (lines 187
  to 189), and when the store raised and the team lives in memory only (lines 202 to 204).\<close>

definition start_stored :: "int \<Rightarrow> string list \<Rightarrow> session_state \<Rightarrow> session_state" where
  "start_stored team_id ps st =
     st\<lparr>current_team_id := Some team_id, players := ps,
        stats_df := Some (create_stats_dataframe ps)\<rparr>"

definition start_in_memory :: "string list \<Rightarrow> session_state \<Rightarrow> session_state" where
  "start_in_memory ps st =
     st\<lparr>current_team_id := None, players := ps, stats_df := Some (create_stats_dataframe ps)\<rparr>"


section \<open>Stores used in examples\<close>

text \<open>A store that answers nothing, and a store holding one player with one counter that
  breaks after \<open>n\<close> statements.\<close>

definition unreachable_store :: store where
  "unreachable_store = \<lparr>tbl_players = [], tbl_stats = [], statements_left = 0\<rparr>"

definition small_store :: "nat \<Rightarrow> store" where
  "small_store n =
     \<lparr>tbl_players = [\<lparr>pl_id = 1, pl_name = ''Ann'', pl_team_id = 7\<rparr>],
      tbl_stats = [\<lparr>stat_id = 1, stat_player_id = 1, stat_skill_name = ''Kill'', stat_count = 4\<rparr>],
      statements_left = n\<rparr>"

section \<open>Substring test and scanning loop\<close>

lemma startswith_iff: "startswith s n \<longleftrightarrow> (\<exists>post. s = n @ post)"
  by (induction s n rule: startswith.induct) auto

text \<open>\<open>str_in\<close> is the substring relation.\<close>

lemma str_in_iff: "str_in n s \<longleftrightarrow> (\<exists>pre post. s = pre @ n @ post)"
proof (induction s)
  case Nil
  then show ?case by simp
next
  case (Cons c cs)
  show ?case
  proof
    assume "str_in n (c # cs)"
    then consider "startswith (c # cs) n" | "str_in n cs" by auto
    then show "\<exists>pre post. c # cs = pre @ n @ post"
    proof cases
      case 1
      then obtain post where "c # cs = n @ post" by (auto simp: startswith_iff)
      then have "c # cs = [] @ n @ post" by simp
      then show ?thesis by blast
    next
      case 2
      then obtain pre post where "cs = pre @ n @ post" using Cons.IH by blast
      then have "c # cs = (c # pre) @ n @ post" by simp
      then show ?thesis by blast
    qed
  next
    assume "\<exists>pre post. c # cs = pre @ n @ post"
    then obtain pre post where e: "c # cs = pre @ n @ post" by blast
    show "str_in n (c # cs)"
    proof (cases pre)
      case Nil
      with e have "startswith (c # cs) n" by (auto simp: startswith_iff)
      then show ?thesis by simp
    next
      case (Cons a pre')
      with e have "cs = pre' @ n @ post" by simp
      then have "str_in n cs" using Cons.IH by blast
      then show ?thesis by simp
    qed
  qed
qed

text \<open>The loop with its \<open>break\<close> finds exactly the first match of the specification.\<close>

lemma first_match_Some_iff:
  "first_match names command = Some x \<longleftrightarrow> is_first_match names command x"
proof (induction names)
  case Nil
  then show ?case by (simp add: is_first_match_def)
next
  case (Cons name names)
  show ?case
  proof (cases "str_in (lower name) (lower command)")
    case True
    then show ?thesis by (cases "name = x") (auto simp: is_first_match_def)
  next
    case False
    then show ?thesis using Cons.IH by (cases "name = x") (auto simp: is_first_match_def)
  qed
qed

lemma first_match_None_iff:
  "first_match names command = None \<longleftrightarrow>
     (\<forall>q \<in> set names. \<not> str_in (lower q) (lower command))"
  by (induction names) auto

section \<open>The frame\<close>

lemma skills_distinct: "distinct VOLLEYBALL_SKILLS"
  by (simp add: VOLLEYBALL_SKILLS_def)

lemma skills_length: "length VOLLEYBALL_SKILLS = 13"
  by (simp add: VOLLEYBALL_SKILLS_def)

lemma skills_nonempty: "[] \<notin> set VOLLEYBALL_SKILLS"
  by (simp add: VOLLEYBALL_SKILLS_def)

lemma fold_update_fresh:
  "distinct (map fst acc @ ks) \<Longrightarrow>
   foldl (\<lambda>data k. AList.update k (f k) data) acc ks = acc @ map (\<lambda>k. (k, f k)) ks"
proof (induction ks arbitrary: acc)
  case Nil
  then show ?case by simp
next
  case (Cons k ks)
  have fresh: "k \<notin> fst ` set acc" using Cons.prems by auto
  have upd: "AList.update k (f k) acc = acc @ [(k, f k)]"
    using fresh by (induction acc) auto
  have "distinct (map fst (acc @ [(k, f k)]) @ ks)" using Cons.prems by auto
  from Cons.IH[OF this] show ?case by (simp add: upd)
qed

lemma create_data:
  "df_data (create_stats_dataframe ps) =
     map (\<lambda>skill. (skill, replicate (length ps) (Int64 0))) VOLLEYBALL_SKILLS"
  using fold_update_fresh[of "[]" VOLLEYBALL_SKILLS "\<lambda>_. replicate (length ps) (Int64 0)"]
  by (simp add: create_stats_dataframe_def skills_distinct)

lemma create_index: "df_index (create_stats_dataframe ps) = ps"
  by (simp add: create_stats_dataframe_def Let_def)

lemma create_columns: "df_columns (create_stats_dataframe ps) = VOLLEYBALL_SKILLS"
  by (simp add: df_columns_def create_data comp_def)

lemma map_of_map_values:
  "map_of (map (\<lambda>(c, vs). (c, f c vs)) xs) k = map_option (f k) (map_of xs k)"
  by (induction xs) auto

lemma loc_increment_index: "df_index (loc_increment df p s) = df_index df"
  by (simp add: loc_increment_def)

lemma loc_increment_columns: "df_columns (loc_increment df p s) = df_columns df"
  by (auto simp: loc_increment_def df_columns_def)

lemma loc_increment_cell:
  "cell (loc_increment df p s) i c =
     map_option (\<lambda>v. if df_index df ! i = p \<and> c = s then add_one v else v) (cell df i c)"
proof -
  let ?f = "\<lambda>c vs. if c = s
                    then map (\<lambda>(label, v). if label = p then add_one v else v) (zip (df_index df) vs)
                    else vs"
  have d: "df_data (loc_increment df p s) = map (\<lambda>(c, vs). (c, ?f c vs)) (df_data df)"
    by (auto simp: loc_increment_def)
  show ?thesis
    unfolding cell_def loc_increment_index d map_of_map_values
    by (cases "map_of (df_data df) c") auto
qed

section \<open>The command handler\<close>

lemma split_empty: "split (lower (strip [])) = []"
  by (simp add: split_def lower_def strip_def)

lemma update_stats_resolution:
  "resolution (fst (update_stats p s st db)) = Some (p, s)"
  by (auto simp: update_stats_def split: option.splits)

lemma match_command_resolution_iff:
  "resolution (fst (match_command command st db)) = Some (p, s) \<longleftrightarrow>
     p \<noteq> [] \<and> is_first_match (players st) command p \<and>
     is_first_match VOLLEYBALL_SKILLS command s"
proof (cases "first_match (players st) command")
  case None
  then have "\<not> is_first_match (players st) command p"
    by (metis first_match_Some_iff option.distinct(1))
  with None show ?thesis by (simp add: match_command_def)
next
  case (Some p')
  note P = this
  show ?thesis
  proof (cases "first_match VOLLEYBALL_SKILLS command")
    case None
    then have "\<not> is_first_match VOLLEYBALL_SKILLS command s"
      by (metis first_match_Some_iff option.distinct(1))
    with None P show ?thesis by (simp add: match_command_def)
  next
    case (Some s')
    then have "s' \<in> set VOLLEYBALL_SKILLS"
      by (simp add: first_match_Some_iff is_first_match_def)
    then have ne: "s' \<noteq> []" using skills_nonempty by auto
    have a: "is_first_match (players st) command p \<longleftrightarrow> p = p'"
      using P by (metis first_match_Some_iff option.inject)
    have b: "is_first_match VOLLEYBALL_SKILLS command s \<longleftrightarrow> s = s'"
      using Some by (metis first_match_Some_iff option.inject)
    show ?thesis using P Some ne a b
      by (auto simp: match_command_def update_stats_resolution)
  qed
qed

lemma handle_resolution_iff:
  "resolution (fst (handle_voice_command (PyStr command) st db)) = Some (p, s) \<longleftrightarrow>
     2 \<le> length (split (lower (strip command))) \<and> p \<noteq> [] \<and>
     is_first_match (players st) command p \<and> is_first_match VOLLEYBALL_SKILLS command s"
proof (cases "command = []")
  case True
  then show ?thesis by (simp add: handle_voice_command_def split_empty)
next
  case False
  then show ?thesis
    by (auto simp: handle_voice_command_def Let_def match_command_resolution_iff)
qed

lemma match_command_miss:
  "match_command command st db = (out, st', db') \<Longrightarrow> resolution out = None \<Longrightarrow>
     st' = st \<and> db' = db"
  by (auto simp: match_command_def update_stats_def split: option.splits if_splits)

lemma handle_miss:
  "handle_voice_command cv st db = (out, st', db') \<Longrightarrow> resolution out = None \<Longrightarrow>
     stats_df st' = stats_df st \<and> players st' = players st \<and>
     current_team_id st' = current_team_id st \<and> db' = db"
  by (auto simp: handle_voice_command_def Let_def split: py_value.splits if_splits
           dest!: match_command_miss)

lemma handle_hit:
  assumes "handle_voice_command cv st db = (out, st', db')"
    and "resolution out = Some (p, s)"
    and "stats_df st = Some df" and "p \<in> set (df_index df)" and "s \<in> set (df_columns df)"
  shows "out = Updated p s \<and> stats_df st' = Some (loc_increment df p s) \<and>
         players st' = players st \<and> current_team_id st' = current_team_id st"
  using assms
  by (auto simp: handle_voice_command_def Let_def match_command_def update_stats_def
           split: py_value.splits if_splits option.splits)

lemma handle_history:
  "handle_voice_command (PyStr command) st db = (out, st', db') \<Longrightarrow> command \<noteq> [] \<Longrightarrow>
     command_history st' = take 10 (command # command_history st) \<and> last_command st' = command"
  by (auto simp: handle_voice_command_def Let_def match_command_def update_stats_def
           split: if_splits option.splits)

lemma handle_rejected:
  "handle_voice_command cv st db = (out, st', db') \<Longrightarrow> cv = PyOther \<or> cv = PyStr [] \<Longrightarrow>
     out = Rejected \<and> st' = st \<and> db' = db"
  by (auto simp: handle_voice_command_def)

section \<open>Words of a command\<close>

lemma isspace_lower_char: "isspace (lower_char c) = isspace c"
  by (auto simp: lower_char_def isspace_def ascii_uppercase_def ascii_lowercase_def split: if_splits)

lemma split_from_lower:
  "split_from (lower w) (lower s) = map lower (split_from w s)"
proof (induction s arbitrary: w)
  case Nil
  then show ?case by (simp add: lower_def)
next
  case (Cons c cs)
  show ?case
    using Cons.IH[of "[]"] Cons.IH[of "w @ [c]"]
    by (auto simp: lower_def isspace_lower_char)
qed

lemma split_from_at_space:
  "isspace sp \<Longrightarrow> split_from w (x @ sp # y) = split_from w x @ split_from [] y"
  by (induction x arbitrary: w) auto

lemma split_from_Nil_iff:
  "split_from w s = [] \<longleftrightarrow> w = [] \<and> (\<forall>c \<in> set s. isspace c)"
  by (induction s arbitrary: w) auto

lemma split_from_spaces:
  "\<forall>c \<in> set t. isspace c \<Longrightarrow> split_from w t = (if w = [] then [] else [w])"
  by (induction t) (auto simp: split_from_Nil_iff)

lemma split_from_trailing:
  "\<forall>c \<in> set t. isspace c \<Longrightarrow> split_from w (s @ t) = split_from w s"
  by (induction s arbitrary: w) (auto simp: split_from_spaces)

lemma split_leading: "split_from [] (dropWhile isspace s) = split_from [] s"
  by (induction s) auto

lemma split_strip: "split (strip s) = split s"
proof -
  let ?u = "dropWhile isspace s"
  have "rev ?u = takeWhile isspace (rev ?u) @ dropWhile isspace (rev ?u)" by simp
  then have "?u = rev (dropWhile isspace (rev ?u)) @ rev (takeWhile isspace (rev ?u))"
    by (metis rev_append rev_rev_ident)
  moreover have "\<forall>c \<in> set (rev (takeWhile isspace (rev ?u))). isspace c"
    by (auto dest: set_takeWhileD)
  ultimately have "split_from [] ?u = split_from [] (rev (dropWhile isspace (rev ?u)))"
    by (metis split_from_trailing)
  then show ?thesis by (simp add: split_def strip_def split_leading)
qed

lemma word_count: "length (split (lower (strip s))) = length (split s)"
proof -
  have "split (lower (strip s)) = map lower (split (strip s))"
    using split_from_lower[of "[]" "strip s"] by (simp add: split_def lower_def)
  then show ?thesis by (simp add: split_strip)
qed

lemma two_words:
  assumes "\<exists>c \<in> set a. \<not> isspace c" and "\<exists>c \<in> set b. \<not> isspace c"
  shows "2 \<le> length (split (lower (strip (a @ '' '' @ b))))"
proof -
  have sp: "isspace CHR '' ''" by (simp add: isspace_def)
  have "split (a @ '' '' @ b) = split a @ split b"
    using split_from_at_space[OF sp, of "[]" a b] by (simp add: split_def)
  moreover have "split a \<noteq> []" "split b \<noteq> []"
    using assms by (auto simp: split_def split_from_Nil_iff)
  ultimately have "2 \<le> length (split (a @ '' '' @ b))"
    by (cases "split a"; cases "split b") auto
  then show ?thesis by (simp add: word_count)
qed

lemma skills_visible: "\<forall>s \<in> set VOLLEYBALL_SKILLS. \<exists>c \<in> set s. \<not> isspace c"
  by (simp add: VOLLEYBALL_SKILLS_def isspace_def)

lemma lower_append: "lower (a @ b) = lower a @ lower b"
  by (simp add: lower_def)

lemma str_in_suffix: "str_in (lower b) (lower (a @ b))"
  unfolding str_in_iff lower_append by (metis append_Nil2)

lemma first_listed_before:
  assumes "q \<in> set (takeWhile (\<lambda>x. x \<noteq> sel) xs)" and "M q"
    and "p \<in> set xs" and "\<forall>r \<in> set (takeWhile (\<lambda>x. x \<noteq> p) xs). \<not> M r"
  shows "p \<in> set (takeWhile (\<lambda>x. x \<noteq> sel) xs)"
  using assms by (induction xs) (auto split: if_splits)

text \<open>Every name of a roster read from the setup form has a character that is not
  whitespace; in particular no name is empty.\<close>

lemma strip_visible:
  assumes "strip p \<noteq> []"
  shows "\<exists>c \<in> set (strip p). \<not> isspace c"
proof -
  let ?r = "dropWhile isspace (rev (dropWhile isspace p))"
  have ne: "?r \<noteq> []" using assms by (simp add: strip_def)
  then have "\<not> isspace (hd ?r)" by (rule hd_dropWhile)
  moreover have "hd ?r \<in> set (strip p)" using ne by (simp add: strip_def)
  ultimately show ?thesis by blast
qed

lemma parse_players_visible:
  "\<forall>p \<in> set (parse_players players_input). \<exists>c \<in> set p. \<not> isspace c"
  by (auto simp: parse_players_def intro: strip_visible)

lemma parse_players_nonempty: "[] \<notin> set (parse_players players_input)"
  using parse_players_visible by fastforce

section \<open>Integer and floating-point counts\<close>

text \<open>Below the largest \<open>int64\<close> the wrapping addition is the addition of integers; at the
  largest it wraps to the smallest.\<close>

lemma sint_add_one:
  fixes w :: "64 word"
  assumes "sint w < 2 ^ 63 - 1"
  shows "sint (w + 1) = sint w + 1"
proof -
  have lo: "- (2 ^ 63) \<le> sint w" using sint_ge[of w] by simp
  have "sint (w + 1) = signed_take_bit 63 (sint w + 1)"
    by (simp add: sint_word_ariths)
  also have "\<dots> = sint w + 1"
    using lo assms by (intro signed_take_bit_int_eq_self) auto
  finally show ?thesis .
qed

lemma int64_wraps: "sint ((9223372036854775807 :: 64 word) + 1) = - 9223372036854775808"
  by simp

text \<open>Up to \<open>2^53\<close> every integer is a double, so a count below it goes up by one; at \<open>2^53\<close>
  the sum is rounded back and the increment is lost.\<close>

lemma ulp_small: "a < 2 ^ 53 \<Longrightarrow> ulp a = 1"
  by (subst ulp.simps) simp

lemma ulp_large: "2 ^ 53 \<le> a \<Longrightarrow> ulp a = 2 * ulp (a div 2)"
  by (subst ulp.simps) simp

lemma ulp_next: "2 ^ 53 \<le> a \<Longrightarrow> a < 2 ^ 54 \<Longrightarrow> ulp a = 2"
proof -
  assume a: "2 ^ 53 \<le> a" "a < 2 ^ 54"
  then have "a div 2 < 2 ^ 53" by simp
  then show ?thesis using a by (simp add: ulp_large ulp_small)
qed

lemma round_double_exact:
  assumes "\<bar>n\<bar> \<le> 2 ^ 53"
  shows "round_double n = n"
proof (cases "\<bar>n\<bar> < 2 ^ 53")
  case True
  then have "ulp (nat \<bar>n\<bar>) = 1" by (intro ulp_small) simp
  then show ?thesis by (simp add: round_double_def Let_def sgn_if)
next
  case False
  with assms have a: "nat \<bar>n\<bar> = 9007199254740992" by simp
  have u: "ulp 9007199254740992 = 2" by (rule ulp_next) simp_all
  have "round_double n = sgn n * 9007199254740992"
    by (simp add: round_double_def Let_def a u)
  with False assms show ?thesis by (simp add: sgn_if) linarith
qed

lemma add_one_Float64:
  "\<bar>v\<bar> < 2 ^ 53 \<Longrightarrow> add_one (Float64 v) = Float64 (v + 1)"
  by (simp add: round_double_exact)

lemma double_sticks: "add_one (Float64 (2 ^ 53)) = Float64 (2 ^ 53)"
proof -
  have u: "ulp 9007199254740993 = 2" by (rule ulp_next) simp_all
  have "round_double 9007199254740993 = 9007199254740992"
    by (simp add: round_double_def Let_def u)
  then show ?thesis by simp
qed

section \<open>A fresh ledger\<close>

lemma map_of_keyed:
  "map_of (map (\<lambda>k. (k, f k)) ks) k = (if k \<in> set ks then Some (f k) else None)"
  by (induction ks) auto

lemma create_cell:
  "cell (create_stats_dataframe ps) i c =
     (if i < length ps \<and> c \<in> set VOLLEYBALL_SKILLS then Some (Int64 0) else None)"
  by (simp add: cell_def create_index create_data map_of_keyed)

text \<open>
  Claim C9. Creating a team, stored or in memory only, builds the ledger with
  \<open>create_stats_dataframe\<close>: the rows are
  the n players, the columns are the 13 skills, so there are n times 13 cells; the cell labels
  are exactly the (player, skill) pairs, each once when the players are distinct; and every
  cell holds 0.
\<close>

theorem fresh_ledger_cells:
  "stats_df (start_stored team_id ps st) = Some (create_stats_dataframe ps) \<and>
   stats_df (start_in_memory ps st) = Some (create_stats_dataframe ps) \<and>
   df_index (create_stats_dataframe ps) = ps \<and>
   df_columns (create_stats_dataframe ps) = VOLLEYBALL_SKILLS \<and>
   length (cell_labels (create_stats_dataframe ps)) = length ps * 13 \<and>
   set (cell_labels (create_stats_dataframe ps)) = set ps \<times> set VOLLEYBALL_SKILLS \<and>
   (distinct ps \<longrightarrow> distinct (cell_labels (create_stats_dataframe ps))) \<and>
   (\<forall>i < length ps. \<forall>s \<in> set VOLLEYBALL_SKILLS. cell (create_stats_dataframe ps) i s = Some (Int64 0)) \<and>
   (\<forall>i c v. cell (create_stats_dataframe ps) i c = Some v \<longrightarrow> v = Int64 0)"
  by (simp add: start_stored_def start_in_memory_def create_index create_columns
        cell_labels_def skills_length skills_distinct distinct_product create_cell)

theorem fresh_ledger_cells_witness:
  "distinct [''Ann'', ''Bo''] \<and>
   length (cell_labels (create_stats_dataframe [''Ann'', ''Bo''])) = 26 \<and>
   distinct (cell_labels (create_stats_dataframe [''Ann'', ''Bo''])) \<and>
   cell (create_stats_dataframe [''Ann'', ''Bo'']) 1 ''Kill'' = Some (Int64 0)"
proof -
  have d: "distinct [''Ann'', ''Bo'']" by simp
  have i: "(1::nat) < length [''Ann'', ''Bo'']" by simp
  have k: "''Kill'' \<in> set VOLLEYBALL_SKILLS" by (simp add: VOLLEYBALL_SKILLS_def)
  show ?thesis using fresh_ledger_cells[where ps = "[''Ann'', ''Bo'']"] d i k by simp
qed

section \<open>Claims about the command handler\<close>

text \<open>
  Claim C4. A command that is rejected, has fewer than two words, contains no player name of
  the roster or contains no skill label resolves to no match; and whenever the resolution is
  no match, the ledger and the store are exactly as before the invocation.
\<close>

theorem resolution_miss_leaves_ledger:
  assumes "handle_voice_command cv st db = (out, st', db')"
  shows "((cv = PyOther \<or> cv = PyStr [] \<or>
           (\<exists>command. cv = PyStr command \<and>
              (length (split (lower (strip command))) < 2 \<or>
               (\<forall>p \<in> set (players st). \<not> str_in (lower p) (lower command)) \<or>
               (\<forall>s \<in> set VOLLEYBALL_SKILLS. \<not> str_in (lower s) (lower command)))))
          \<longrightarrow> resolution out = None) \<and>
         (resolution out = None \<longrightarrow> stats_df st' = stats_df st \<and> db' = db)"
proof (intro conjI impI)
  assume miss: "cv = PyOther \<or> cv = PyStr [] \<or>
           (\<exists>command. cv = PyStr command \<and>
              (length (split (lower (strip command))) < 2 \<or>
               (\<forall>p \<in> set (players st). \<not> str_in (lower p) (lower command)) \<or>
               (\<forall>s \<in> set VOLLEYBALL_SKILLS. \<not> str_in (lower s) (lower command))))"
  show "resolution out = None"
  proof (cases cv)
    case PyOther
    then show ?thesis using assms by (simp add: handle_voice_command_def)
  next
    case (PyStr command)
    show ?thesis
    proof (rule ccontr)
      assume "resolution out \<noteq> None"
      then obtain p s where "resolution out = Some (p, s)" by auto
      then have "resolution (fst (handle_voice_command (PyStr command) st db)) = Some (p, s)"
        using assms PyStr by simp
      then have h: "2 \<le> length (split (lower (strip command)))"
          "is_first_match (players st) command p" "is_first_match VOLLEYBALL_SKILLS command s"
        by (simp_all add: handle_resolution_iff)
      then have "command \<noteq> []" by (auto simp: split_empty)
      with miss PyStr h show False by (auto simp: is_first_match_def)
    qed
  qed
next
  assume "resolution out = None"
  with assms show "stats_df st' = stats_df st" by (simp add: handle_miss)
next
  assume "resolution out = None"
  with assms show "db' = db" by (simp add: handle_miss)
qed

theorem resolution_miss_leaves_ledger_witness:
  "\<not> (\<exists>p \<in> set (players (start_in_memory [''Ann'', ''Bo''] initial_session)).
          str_in (lower p) (lower ''carl serve ace'')) \<and>
   stats_df (fst (snd (handle_voice_command (PyStr ''carl serve ace'')
                        (start_in_memory [''Ann'', ''Bo''] initial_session) unreachable_store)))
     = stats_df (start_in_memory [''Ann'', ''Bo''] initial_session)"
proof -
  let ?st = "start_in_memory [''Ann'', ''Bo''] initial_session"
  obtain out st' db' where
    r: "handle_voice_command (PyStr ''carl serve ace'') ?st unreachable_store = (out, st', db')"
    using prod_cases3 by blast
  have miss: "\<forall>p \<in> set (players ?st). \<not> str_in (lower p) (lower ''carl serve ace'')"
    by code_simp
  from resolution_miss_leaves_ledger[OF r] miss have "stats_df st' = stats_df ?st" by blast
  with r miss show ?thesis by simp
qed

text \<open>
  Claim C3. The resolution of a command is the pair (p, s) exactly when the command has at
  least two words, p is the first player in the order of the roster whose lowercased name is
  a substring of the lowercased command (no player listed before p is one) and s is the first
  skill in the order of the enumeration whose lowercased label is one. The first listed match
  wins, whatever else matches and however long it is.
\<close>

theorem first_declared_match_wins:
  "resolution (fst (handle_voice_command (PyStr command) st db)) = Some (p, s) \<longleftrightarrow>
     2 \<le> length (split (lower (strip command))) \<and> p \<noteq> [] \<and>
     p \<in> set (players st) \<and> str_in (lower p) (lower command) \<and>
     (\<forall>q \<in> set (takeWhile (\<lambda>q. q \<noteq> p) (players st)). \<not> str_in (lower q) (lower command)) \<and>
     s \<in> set VOLLEYBALL_SKILLS \<and> str_in (lower s) (lower command) \<and>
     (\<forall>q \<in> set (takeWhile (\<lambda>q. q \<noteq> s) VOLLEYBALL_SKILLS). \<not> str_in (lower q) (lower command))"
  unfolding handle_resolution_iff is_first_match_def by blast

theorem first_declared_match_wins_witness:
  "str_in (lower ''Ann'') (lower ''joanne block kill'') \<and>
   str_in (lower ''Joanne'') (lower ''joanne block kill'') \<and>
   str_in (lower ''Kill'') (lower ''joanne block kill'') \<and>
   str_in (lower ''Block'') (lower ''joanne block kill'') \<and>
   resolution (fst (handle_voice_command (PyStr ''joanne block kill'')
                      (start_in_memory [''Joanne'', ''Ann''] initial_session) unreachable_store))
     = Some (''Joanne'', ''Kill'') \<and>
   resolution (fst (handle_voice_command (PyStr ''joanne block kill'')
                      (start_in_memory [''Ann'', ''Joanne''] initial_session) unreachable_store))
     = Some (''Ann'', ''Kill'')"
proof -
  have a: "str_in (lower ''Ann'') (lower ''joanne block kill'')"
    and j: "str_in (lower ''Joanne'') (lower ''joanne block kill'')"
    and k: "str_in (lower ''Kill'') (lower ''joanne block kill'')"
    and b: "str_in (lower ''Block'') (lower ''joanne block kill'')"
    by code_simp+
  have w: "2 \<le> length (split (lower (strip ''joanne block kill'')))" by code_simp
  have pj: "players (start_in_memory [''Joanne'', ''Ann''] initial_session) = [''Joanne'', ''Ann'']"
    and pa: "players (start_in_memory [''Ann'', ''Joanne''] initial_session) = [''Ann'', ''Joanne'']"
    by (simp_all add: start_in_memory_def)
  have sk: "''Kill'' \<in> set VOLLEYBALL_SKILLS"
    by (simp add: VOLLEYBALL_SKILLS_def)
  have before: "\<forall>q \<in> set (takeWhile (\<lambda>q. q \<noteq> ''Kill'') VOLLEYBALL_SKILLS).
                  \<not> str_in (lower q) (lower ''joanne block kill'')"
    by code_simp
  have 1: "resolution (fst (handle_voice_command (PyStr ''joanne block kill'')
                      (start_in_memory [''Joanne'', ''Ann''] initial_session) unreachable_store))
     = Some (''Joanne'', ''Kill'')"
    unfolding first_declared_match_wins pj using j k w sk before by simp
  have 2: "resolution (fst (handle_voice_command (PyStr ''joanne block kill'')
                      (start_in_memory [''Ann'', ''Joanne''] initial_session) unreachable_store))
     = Some (''Ann'', ''Kill'')"
    unfolding first_declared_match_wins pa using a k w sk before by simp
  show ?thesis using a j k b 1 2 by blast
qed

text \<open>A command resolved to (p, s) on a ledger holding that row and column is resolved to the
  same pair when submitted again, and the increment is applied once more.\<close>

lemma repeated_command:
  assumes "handle_voice_command cv st db = (out, st1, db1)"
    and "resolution out = Some (p, s)"
    and "stats_df st = Some df" and "p \<in> set (df_index df)" and "s \<in> set (df_columns df)"
    and "handle_voice_command cv st1 db1 = (out2, st2, db2)"
  shows "out = Updated p s \<and> stats_df st1 = Some (loc_increment df p s) \<and>
         out2 = Updated p s \<and> stats_df st2 = Some (loc_increment (loc_increment df p s) p s)"
proof -
  from assms(1,2) obtain command where cv: "cv = PyStr command"
    by (cases cv) (auto simp: handle_voice_command_def)
  have "resolution (fst (handle_voice_command (PyStr command) st db)) = Some (p, s)"
    using assms(1,2) cv by simp
  then have fm: "2 \<le> length (split (lower (strip command))) \<and> p \<noteq> [] \<and>
     is_first_match (players st) command p \<and> is_first_match VOLLEYBALL_SKILLS command s"
    by (simp add: handle_resolution_iff)
  from handle_hit[OF assms(1,2,3,4,5)]
  have 1: "out = Updated p s" "stats_df st1 = Some (loc_increment df p s)" "players st1 = players st"
    by simp_all
  have "resolution (fst (handle_voice_command (PyStr command) st1 db1)) = Some (p, s)"
    unfolding handle_resolution_iff using fm 1(3) by simp
  then have res2: "resolution out2 = Some (p, s)" using assms(6) cv by simp
  have p1: "p \<in> set (df_index (loc_increment df p s))"
    and s1: "s \<in> set (df_columns (loc_increment df p s))"
    using assms(4,5) by (simp_all add: loc_increment_index loc_increment_columns)
  from handle_hit[OF assms(6) res2 1(2) p1 s1] 1 show ?thesis by simp
qed


text \<open>
  Claim C6. Every invocation with a non-empty string, matched or not, prepends the raw
  command to the history and keeps the ten newest entries: the command is first, the history
  has at most ten entries, and when it had ten the oldest is dropped. The page invokes the
  handler with nothing else: the text button and the dropdown button pass a non-empty string
  or do not call it, and the voice tab never calls it. A value rejected at the first line of
  the handler leaves the history; in every case a history of at most ten entries stays one.
\<close>

theorem history_logging:
  assumes "handle_voice_command cv st db = (out, st', db')"
  shows "(\<forall>command. cv = PyStr command \<and> command \<noteq> [] \<longrightarrow>
            command_history st' = take 10 (command # command_history st) \<and>
            hd (command_history st') = command \<and>
            length (command_history st') \<le> 10 \<and>
            (length (command_history st) = 10 \<longrightarrow>
               command_history st' = command # butlast (command_history st))) \<and>
         (cv = PyOther \<or> cv = PyStr [] \<longrightarrow> command_history st' = command_history st) \<and>
         (length (command_history st) \<le> 10 \<longrightarrow> length (command_history st') \<le> 10) \<and>
         (\<forall>t o1 s1 d1. add_stat_from_text t st db = (Some o1, s1, d1) \<longrightarrow>
            t \<noteq> [] \<and> command_history s1 = take 10 (t # command_history st)) \<and>
         (\<forall>pc sc o1 s1 d1. add_stat_from_dropdowns pc sc st db = (Some o1, s1, d1) \<longrightarrow>
            (\<exists>pn sk. pc = Some pn \<and> sc = Some sk \<and> pn @ '' '' @ sk \<noteq> [] \<and>
               command_history s1 = take 10 ((pn @ '' '' @ sk) # command_history st))) \<and>
         (\<forall>t s1 d1. add_stat_from_text t st db = (None, s1, d1) \<longrightarrow> t = [] \<and> s1 = st) \<and>
         voice_tab st db = (None, st, db)"
proof -
  have a: "command_history st' = take 10 (command # command_history st)"
    if "cv = PyStr command" "command \<noteq> []" for command
    using handle_history[of command st db out st' db'] assms that by simp
  have b: "command_history st' = command_history st" if "cv = PyOther \<or> cv = PyStr []"
    using handle_rejected[OF assms that] by simp
  have ev: "take 10 (command # h) = command # butlast h"
    if "length h = 10" for command :: string and h :: "string list"
  proof -
    have "take 10 (command # h) = command # take 9 h" by (simp add: take_Cons')
    moreover have "take 9 h = butlast h" using that by (simp add: butlast_conv_take)
    ultimately show ?thesis by simp
  qed
  have c: "length (command_history st') \<le> 10" if "length (command_history st) \<le> 10"
  proof (cases cv)
    case PyOther
    then show ?thesis using b that by simp
  next
    case (PyStr command)
    then show ?thesis using a[of command] b that by (cases "command = []") auto
  qed
  have first: "(\<forall>command. cv = PyStr command \<and> command \<noteq> [] \<longrightarrow>
            command_history st' = take 10 (command # command_history st) \<and>
            hd (command_history st') = command \<and>
            length (command_history st') \<le> 10 \<and>
            (length (command_history st) = 10 \<longrightarrow>
               command_history st' = command # butlast (command_history st)))"
    using a ev by (auto simp: take_Cons')
  have from_text: "\<forall>t o1 s1 d1. add_stat_from_text t st db = (Some o1, s1, d1) \<longrightarrow>
            t \<noteq> [] \<and> command_history s1 = take 10 (t # command_history st)"
    by (auto simp: add_stat_from_text_def split: if_splits prod.splits dest: handle_history)
  have no_text: "\<forall>t s1 d1. add_stat_from_text t st db = (None, s1, d1) \<longrightarrow> t = [] \<and> s1 = st"
    by (auto simp: add_stat_from_text_def split: if_splits prod.splits)
  have dd: "\<forall>pc sc o1 s1 d1. add_stat_from_dropdowns pc sc st db = (Some o1, s1, d1) \<longrightarrow>
            (\<exists>pn sk. pc = Some pn \<and> sc = Some sk \<and> pn @ '' '' @ sk \<noteq> [] \<and>
               command_history s1 = take 10 ((pn @ '' '' @ sk) # command_history st))"
  proof (intro allI impI)
    fix pc sc o1 s1 d1
    assume r: "add_stat_from_dropdowns pc sc st db = (Some o1, s1, d1)"
    then obtain pn sk where ch: "pc = Some pn" "sc = Some sk"
      and h: "handle_voice_command (PyStr (pn @ '' '' @ sk)) st db = (o1, s1, d1)"
      by (auto simp: add_stat_from_dropdowns_def split: option.splits if_splits prod.splits)
    have ne: "pn @ '' '' @ sk \<noteq> []" by simp
    from handle_history[OF h ne] ch ne
    show "\<exists>pn sk. pc = Some pn \<and> sc = Some sk \<and> pn @ '' '' @ sk \<noteq> [] \<and>
               command_history s1 = take 10 ((pn @ '' '' @ sk) # command_history st)"
      by blast
  qed
  have v: "voice_tab st db = (None, st, db)"
    by (simp add: voice_tab_def voice_recognition_component_def)
  show ?thesis using first b c from_text no_text dd v by blast
qed

theorem history_logging_witness:
  "command_history (fst (snd (handle_voice_command (PyStr ''k'')
      (initial_session\<lparr>command_history := [''j'', ''i'', ''h'', ''g'', ''f'', ''e'', ''d'', ''c'', ''b'', ''a'']\<rparr>)
      unreachable_store)))
     = [''k'', ''j'', ''i'', ''h'', ''g'', ''f'', ''e'', ''d'', ''c'', ''b'']"
proof -
  let ?st = "initial_session\<lparr>command_history := [''j'', ''i'', ''h'', ''g'', ''f'', ''e'', ''d'', ''c'', ''b'', ''a'']\<rparr>"
  obtain out st' db' where r: "handle_voice_command (PyStr ''k'') ?st unreachable_store = (out, st', db')"
    using prod_cases3 by blast
  have ne: "''k'' \<noteq> []" by simp
  have len: "length (command_history ?st) = 10" by simp
  from history_logging[OF r] ne len
  have "command_history st' = ''k'' # butlast (command_history ?st)" by blast
  with r show ?thesis by simp
qed

text \<open>
  Claim C1, amended. For a command of at least two words, if p is the first player of the
  roster (with a non-empty name) whose lowercased name is a substring of the lowercased
  command and s is the first skill of the enumeration whose lowercased label is one, the
  resolution is (p, s). On a ledger that holds row p and column s the handler then takes the
  update and writes to the cells of column s in the rows labelled p and to no other cell: an
  integer count below \<open>2^63 - 1\<close>, and a floating-point count below \<open>2^53\<close> in magnitude, goes up
  by exactly one. A command of fewer than two words is not resolved and leaves the ledger,
  whatever names it contains.
\<close>

theorem contained_names_resolve:
  assumes "handle_voice_command (PyStr command) st db = (out, st', db')"
  shows "(length (split (lower (strip command))) < 2 \<longrightarrow>
            resolution out = None \<and> stats_df st' = stats_df st) \<and>
         (2 \<le> length (split (lower (strip command))) \<and> p \<noteq> [] \<and>
          is_first_match (players st) command p \<and>
          is_first_match VOLLEYBALL_SKILLS command s \<longrightarrow>
            resolution out = Some (p, s) \<and>
            (\<forall>df. stats_df st = Some df \<and> p \<in> set (df_index df) \<and> s \<in> set (df_columns df) \<longrightarrow>
               out = Updated p s \<and>
               (\<exists>df'. stats_df st' = Some df' \<and>
                  df_index df' = df_index df \<and> df_columns df' = df_columns df \<and>
                  (\<forall>i c. \<not> (df_index df ! i = p \<and> c = s) \<longrightarrow> cell df' i c = cell df i c) \<and>
                  (\<forall>i w. df_index df ! i = p \<and> cell df i s = Some (Int64 w) \<and>
                         sint w < 2 ^ 63 - 1 \<longrightarrow>
                     cell df' i s = Some (Int64 (w + 1)) \<and> sint (w + 1) = sint w + 1) \<and>
                  (\<forall>i v. df_index df ! i = p \<and> cell df i s = Some (Float64 v) \<and>
                         \<bar>v\<bar> < 2 ^ 53 \<longrightarrow>
                     cell df' i s = Some (Float64 (v + 1))))))"
proof (intro conjI impI)
  assume few: "length (split (lower (strip command))) < 2"
  have "resolution (fst (handle_voice_command (PyStr command) st db)) \<noteq> Some (p', s')" for p' s'
    using few by (simp add: handle_resolution_iff)
  then have none: "resolution out = None" using assms by (cases "resolution out") auto
  then show "resolution out = None" .
  from handle_miss[OF assms none] show "stats_df st' = stats_df st" by simp
next
  assume h: "2 \<le> length (split (lower (strip command))) \<and> p \<noteq> [] \<and>
          is_first_match (players st) command p \<and>
          is_first_match VOLLEYBALL_SKILLS command s"
  have "resolution (fst (handle_voice_command (PyStr command) st db)) = Some (p, s)"
    unfolding handle_resolution_iff using h by simp
  then have res: "resolution out = Some (p, s)" using assms by simp
  then show "resolution out = Some (p, s)" .
  show "\<forall>df. stats_df st = Some df \<and> p \<in> set (df_index df) \<and> s \<in> set (df_columns df) \<longrightarrow>
               out = Updated p s \<and>
               (\<exists>df'. stats_df st' = Some df' \<and>
                  df_index df' = df_index df \<and> df_columns df' = df_columns df \<and>
                  (\<forall>i c. \<not> (df_index df ! i = p \<and> c = s) \<longrightarrow> cell df' i c = cell df i c) \<and>
                  (\<forall>i w. df_index df ! i = p \<and> cell df i s = Some (Int64 w) \<and>
                         sint w < 2 ^ 63 - 1 \<longrightarrow>
                     cell df' i s = Some (Int64 (w + 1)) \<and> sint (w + 1) = sint w + 1) \<and>
                  (\<forall>i v. df_index df ! i = p \<and> cell df i s = Some (Float64 v) \<and>
                         \<bar>v\<bar> < 2 ^ 53 \<longrightarrow>
                     cell df' i s = Some (Float64 (v + 1))))"
  proof (intro allI impI)
    fix df
    assume l: "stats_df st = Some df \<and> p \<in> set (df_index df) \<and> s \<in> set (df_columns df)"
    from handle_hit[OF assms res] l
    have upd: "out = Updated p s" "stats_df st' = Some (loc_increment df p s)" by simp_all
    have keep: "\<forall>i c. \<not> (df_index df ! i = p \<and> c = s) \<longrightarrow>
                  cell (loc_increment df p s) i c = cell df i c"
      by (auto simp: loc_increment_cell option.map_ident)
    have ints: "\<forall>i w. df_index df ! i = p \<and> cell df i s = Some (Int64 w) \<and>
                   sint w < 2 ^ 63 - 1 \<longrightarrow>
                 cell (loc_increment df p s) i s = Some (Int64 (w + 1)) \<and>
                 sint (w + 1) = sint w + 1"
      by (auto simp: loc_increment_cell sint_add_one)
    have floats: "\<forall>i v. df_index df ! i = p \<and> cell df i s = Some (Float64 v) \<and>
                   \<bar>v\<bar> < 2 ^ 53 \<longrightarrow>
                 cell (loc_increment df p s) i s = Some (Float64 (v + 1))"
      by (auto simp: loc_increment_cell round_double_exact)
    show "out = Updated p s \<and>
               (\<exists>df'. stats_df st' = Some df' \<and>
                  df_index df' = df_index df \<and> df_columns df' = df_columns df \<and>
                  (\<forall>i c. \<not> (df_index df ! i = p \<and> c = s) \<longrightarrow> cell df' i c = cell df i c) \<and>
                  (\<forall>i w. df_index df ! i = p \<and> cell df i s = Some (Int64 w) \<and>
                         sint w < 2 ^ 63 - 1 \<longrightarrow>
                     cell df' i s = Some (Int64 (w + 1)) \<and> sint (w + 1) = sint w + 1) \<and>
                  (\<forall>i v. df_index df ! i = p \<and> cell df i s = Some (Float64 v) \<and>
                         \<bar>v\<bar> < 2 ^ 53 \<longrightarrow>
                     cell df' i s = Some (Float64 (v + 1))))"
      using upd keep ints floats loc_increment_index[of df p s] loc_increment_columns[of df p s]
      by blast
  qed
qed

theorem contained_names_resolve_witness:
  "2 \<le> length (split (lower (strip ''add a kill for Bo''))) \<and>
   is_first_match [''Ann'', ''Bo''] ''add a kill for Bo'' ''Bo'' \<and>
   is_first_match VOLLEYBALL_SKILLS ''add a kill for Bo'' ''Kill'' \<and>
   fst (handle_voice_command (PyStr ''add a kill for Bo'')
          (start_in_memory [''Ann'', ''Bo''] initial_session) unreachable_store)
     = Updated ''Bo'' ''Kill'' \<and>
   ledger_cell (start_in_memory [''Ann'', ''Bo''] initial_session) 1 ''Kill'' = Some (Int64 0) \<and>
   ledger_cell (fst (snd (handle_voice_command (PyStr ''add a kill for Bo'')
          (start_in_memory [''Ann'', ''Bo''] initial_session) unreachable_store))) 1 ''Kill''
     = Some (Int64 1) \<and>
   ledger_cell (fst (snd (handle_voice_command (PyStr ''add a kill for Bo'')
          (start_in_memory [''Ann'', ''Bo''] initial_session) unreachable_store))) 0 ''Kill''
     = Some (Int64 0) \<and>
   resolution (fst (handle_voice_command (PyStr ''Bo'')
          (start_in_memory [''Ann'', ''Bo''] initial_session) unreachable_store)) = None"
proof -
  let ?st = "start_in_memory [''Ann'', ''Bo''] initial_session"
  let ?c = "''add a kill for Bo''"
  let ?df = "create_stats_dataframe [''Ann'', ''Bo'']"
  obtain out st' db' where r: "handle_voice_command (PyStr ?c) ?st unreachable_store = (out, st', db')"
    using prod_cases3 by blast
  obtain out1 st1 db1 where r1: "handle_voice_command (PyStr ''Bo'') ?st unreachable_store = (out1, st1, db1)"
    using prod_cases3 by blast
  have pl: "players ?st = [''Ann'', ''Bo'']" and df: "stats_df ?st = Some ?df"
    by (simp_all add: start_in_memory_def)
  have w: "2 \<le> length (split (lower (strip ?c)))" by code_simp
  have fp: "is_first_match [''Ann'', ''Bo''] ?c ''Bo''" by code_simp
  have fs: "is_first_match VOLLEYBALL_SKILLS ?c ''Kill''" by code_simp
  have ne: "''Bo'' \<noteq> []" by simp
  have k: "''Kill'' \<in> set VOLLEYBALL_SKILLS" by (simp add: VOLLEYBALL_SKILLS_def)
  have ix: "df_index ?df = [''Ann'', ''Bo'']" by (simp add: create_index)
  have led: "stats_df ?st = Some ?df \<and> ''Bo'' \<in> set (df_index ?df) \<and> ''Kill'' \<in> set (df_columns ?df)"
    using df k by (simp add: create_index create_columns)
  have c1: "cell ?df 1 ''Kill'' = Some (Int64 0)" and c0: "cell ?df 0 ''Kill'' = Some (Int64 0)"
    using k by (simp_all add: create_cell)
  have small: "sint (0 :: 64 word) < 2 ^ 63 - 1" by simp
  from contained_names_resolve[OF r, of "''Bo''" "''Kill''"] w fp fs ne pl led
  obtain df' where o: "out = Updated ''Bo'' ''Kill''" and d': "stats_df st' = Some df'"
    and keep: "\<forall>i c. \<not> (df_index ?df ! i = ''Bo'' \<and> c = ''Kill'') \<longrightarrow> cell df' i c = cell ?df i c"
    and ints: "\<forall>i w. df_index ?df ! i = ''Bo'' \<and> cell ?df i ''Kill'' = Some (Int64 w) \<and>
                   sint w < 2 ^ 63 - 1 \<longrightarrow>
                 cell df' i ''Kill'' = Some (Int64 (w + 1)) \<and> sint (w + 1) = sint w + 1"
    by auto
  have a1: "cell df' 1 ''Kill'' = Some (Int64 1)"
    using ints[rule_format, of 1 0] c1 small ix by simp
  have a0: "cell df' 0 ''Kill'' = Some (Int64 0)"
    using keep[rule_format, of 0 "''Kill''"] c0 ix by simp
  have few: "length (split (lower (strip ''Bo''))) < 2" by code_simp
  from contained_names_resolve[OF r1] few have none: "resolution out1 = None" by blast
  show ?thesis
    using w fp fs r r1 o d' a1 a0 none c1 df by (simp add: ledger_cell_def)
qed

text \<open>
  ``AnnKill'' contains a player name and a skill label and is one word: it is not resolved and
  the ledger keeps its zeros. ``Joanne Kill'' contains the name of Joanne and, with Ann listed
  first, is resolved to Ann.
\<close>

theorem contained_names_counterexample:
  "''Ann'' \<in> set (players (start_in_memory [''Ann'', ''Bo''] initial_session)) \<and>
   str_in (lower ''Ann'') (lower ''AnnKill'') \<and>
   ''Kill'' \<in> set VOLLEYBALL_SKILLS \<and>
   str_in (lower ''Kill'') (lower ''AnnKill'') \<and>
   fst (handle_voice_command (PyStr ''AnnKill'')
          (start_in_memory [''Ann'', ''Bo''] initial_session) unreachable_store) = TooFewWords \<and>
   ledger_cell (fst (snd (handle_voice_command (PyStr ''AnnKill'')
          (start_in_memory [''Ann'', ''Bo''] initial_session) unreachable_store))) 0 ''Kill''
     = Some (Int64 0) \<and>
   ''Joanne'' \<in> set (players (start_in_memory [''Ann'', ''Joanne''] initial_session)) \<and>
   str_in (lower ''Joanne'') (lower ''Joanne Kill'') \<and>
   str_in (lower ''Kill'') (lower ''Joanne Kill'') \<and>
   resolution (fst (handle_voice_command (PyStr ''Joanne Kill'')
          (start_in_memory [''Ann'', ''Joanne''] initial_session) unreachable_store))
     = Some (''Ann'', ''Kill'')"
  by code_simp

text \<open>
  Claim C2, amended. With a roster of non-empty names that contains ``John'', the command
  ``johnny block'' is resolved: ``john'' is a substring of ``johnny block''. The pair is
  (p, Block) with p the first player of the roster whose lowercased name occurs in the
  command, which is John when John is that first player.
\<close>

theorem johnny_block_resolves:
  assumes "''John'' \<in> set (players st)" and "[] \<notin> set (players st)"
  shows "\<exists>p. resolution (fst (handle_voice_command (PyStr ''johnny block'') st db))
                = Some (p, ''Block'') \<and>
              is_first_match (players st) ''johnny block'' p \<and>
              (is_first_match (players st) ''johnny block'' ''John'' \<longrightarrow> p = ''John'')"
proof -
  have "str_in (lower ''John'') (lower ''johnny block'')" by code_simp
  with assms(1) have "first_match (players st) ''johnny block'' \<noteq> None"
    by (auto simp: first_match_None_iff)
  then obtain p where fm: "first_match (players st) ''johnny block'' = Some p" by auto
  then have fp: "is_first_match (players st) ''johnny block'' p"
    by (simp add: first_match_Some_iff)
  then have ne: "p \<noteq> []" using assms(2) by (auto simp: is_first_match_def)
  have fs: "is_first_match VOLLEYBALL_SKILLS ''johnny block'' ''Block''" by code_simp
  have w: "2 \<le> length (split (lower (strip ''johnny block'')))" by code_simp
  have uniq: "p = ''John''" if "is_first_match (players st) ''johnny block'' ''John''"
    using that fm by (simp add: first_match_Some_iff[symmetric])
  have "resolution (fst (handle_voice_command (PyStr ''johnny block'') st db)) = Some (p, ''Block'')"
    unfolding handle_resolution_iff using w ne fp fs by simp
  with fp uniq show ?thesis by blast
qed

theorem johnny_block_resolves_witness:
  "''John'' \<in> set (players (start_in_memory [''John'', ''Mary''] initial_session)) \<and>
   [] \<notin> set (players (start_in_memory [''John'', ''Mary''] initial_session)) \<and>
   is_first_match (players (start_in_memory [''John'', ''Mary''] initial_session))
      ''johnny block'' ''John'' \<and>
   resolution (fst (handle_voice_command (PyStr ''johnny block'')
          (start_in_memory [''John'', ''Mary''] initial_session) unreachable_store))
     = Some (''John'', ''Block'')"
proof -
  let ?st = "start_in_memory [''John'', ''Mary''] initial_session"
  have a: "''John'' \<in> set (players ?st)" and b: "[] \<notin> set (players ?st)"
    by (simp_all add: start_in_memory_def)
  have f: "is_first_match (players ?st) ''johnny block'' ''John''" by code_simp
  from johnny_block_resolves[OF a b, of unreachable_store] f a b show ?thesis by auto
qed

text \<open>With the roster John, Mary the command is resolved to John and Block, and the count
  of that cell goes from 0 to 1.\<close>

theorem johnny_block_counterexample:
  "''John'' \<in> set (players (start_in_memory [''John'', ''Mary''] initial_session)) \<and>
   ''johnny'' \<notin> set (players (start_in_memory [''John'', ''Mary''] initial_session)) \<and>
   fst (handle_voice_command (PyStr ''johnny block'')
          (start_in_memory [''John'', ''Mary''] initial_session) unreachable_store)
     = Updated ''John'' ''Block'' \<and>
   ledger_cell (fst (snd (handle_voice_command (PyStr ''johnny block'')
          (start_in_memory [''John'', ''Mary''] initial_session) unreachable_store))) 0 ''Block''
     = Some (Int64 1)"
  by code_simp

section \<open>Claims about the buttons\<close>

text \<open>
  Claim C7. The ``Save Stats'' button returns the session state it was given, whatever the
  store does, so the ledger holds the same values after a save that failed as before it, and
  the failed save is rolled back. The failure itself is caught inside \<open>save_current_stats\<close>
  and printed there; no exception reaches the button, whose branch with the error message is
  never entered: after a save that failed the page shows the message of a successful save.
\<close>

theorem failed_save_shown_as_saved:
  assumes "save_stats_button st db = (st', db', log, msg)"
  shows "st' = st \<and>
         (log = Some ErrorPrinted \<longrightarrow>
            msg = Success ''Stats saved to database successfully!'' \<and>
            tbl_stats db' = tbl_stats db \<and> tbl_players db' = tbl_players db)"
  using assms
  by (auto simp: save_stats_button_def save_current_stats_def statement_def Let_def
           split: option.splits prod.splits if_splits sum.splits)

theorem failed_save_shown_as_saved_witness:
  "save_stats_button (start_stored 7 [''Ann''] initial_session) (small_store 2)
     = (start_stored 7 [''Ann''] initial_session,
        (small_store 2)\<lparr>statements_left := 0\<rparr>,
        Some ErrorPrinted,
        Success ''Stats saved to database successfully!'')"
proof -
  let ?st = "start_stored 7 [''Ann''] initial_session"
  obtain st' db' log msg where r: "save_stats_button ?st (small_store 2) = (st', db', log, msg)"
    using prod_cases4 by blast
  have l: "fst (snd (snd (save_stats_button ?st (small_store 2)))) = Some ErrorPrinted"
    by code_simp
  have d: "statements_left (fst (snd (save_stats_button ?st (small_store 2)))) = 0"
    by code_simp
  from l r have "log = Some ErrorPrinted" by simp
  with failed_save_shown_as_saved[OF r] d r show ?thesis
    by (cases db') (simp add: small_store_def)
qed

text \<open>
  Claim C8, amended. The ``Reset Stats'' button replaces the ledger by a fresh frame: its rows
  are the roster, its columns the 13 skills of the enumeration, and every cell is 0. When the
  rows of the old ledger were the roster and its columns exactly the 13 skills, the cells of
  the new ledger carry the same labels as before and are as many. A column of the old ledger
  that is not a skill of the enumeration is not kept.
\<close>

theorem reset_rebuilds_ledger:
  assumes "reset_stats_button st db = (st', db', log, msg)"
  shows "\<exists>df'. stats_df st' = Some df' \<and> players st' = players st \<and>
           df_index df' = players st \<and> df_columns df' = VOLLEYBALL_SKILLS \<and>
           (\<forall>i c v. cell df' i c = Some v \<longrightarrow> v = Int64 0) \<and>
           (\<forall>i < length (players st). \<forall>c \<in> set VOLLEYBALL_SKILLS. cell df' i c = Some (Int64 0)) \<and>
           (\<forall>df. stats_df st = Some df \<and> df_index df = players st \<and>
                 set (df_columns df) = set VOLLEYBALL_SKILLS \<and> distinct (df_columns df)
              \<longrightarrow> set (cell_labels df') = set (cell_labels df) \<and>
                  length (cell_labels df') = length (cell_labels df))"
proof -
  let ?df = "create_stats_dataframe (players st)"
  have st': "stats_df st' = Some ?df" "players st' = players st"
    using assms
    by (auto simp: reset_stats_button_def Let_def split: option.splits prod.splits)
  have len: "length (df_columns df) = length VOLLEYBALL_SKILLS"
    if "set (df_columns df) = set VOLLEYBALL_SKILLS" "distinct (df_columns df)" for df
    using that skills_distinct by (metis distinct_card)
  show ?thesis
    using st' len
    by (auto simp: create_index create_columns create_cell cell_labels_def)
qed

theorem reset_rebuilds_ledger_witness:
  "ledger_cell ((start_in_memory [''Ann'', ''Bo''] initial_session)
        \<lparr>stats_df := Some (loc_increment (create_stats_dataframe [''Ann'', ''Bo'']) ''Bo'' ''Kill'')\<rparr>)
      1 ''Kill'' = Some (Int64 1) \<and>
   ledger_cell (fst (reset_stats_button ((start_in_memory [''Ann'', ''Bo''] initial_session)
        \<lparr>stats_df := Some (loc_increment (create_stats_dataframe [''Ann'', ''Bo'']) ''Bo'' ''Kill'')\<rparr>)
        unreachable_store))
      1 ''Kill'' = Some (Int64 0) \<and>
   set (ledger_labels (fst (reset_stats_button ((start_in_memory [''Ann'', ''Bo''] initial_session)
        \<lparr>stats_df := Some (loc_increment (create_stats_dataframe [''Ann'', ''Bo'']) ''Bo'' ''Kill'')\<rparr>)
        unreachable_store)))
     = set (ledger_labels ((start_in_memory [''Ann'', ''Bo''] initial_session)
        \<lparr>stats_df := Some (loc_increment (create_stats_dataframe [''Ann'', ''Bo'']) ''Bo'' ''Kill'')\<rparr>))"
proof -
  let ?df = "loc_increment (create_stats_dataframe [''Ann'', ''Bo'']) ''Bo'' ''Kill''"
  let ?st = "(start_in_memory [''Ann'', ''Bo''] initial_session)\<lparr>stats_df := Some ?df\<rparr>"
  obtain st' db' log msg where r: "reset_stats_button ?st unreachable_store = (st', db', log, msg)"
    using prod_cases4 by blast
  have before: "ledger_cell ?st 1 ''Kill'' = Some (Int64 1)" by code_simp
  have pl: "players ?st = [''Ann'', ''Bo'']" by (simp add: start_in_memory_def)
  have k: "''Kill'' \<in> set VOLLEYBALL_SKILLS" by (simp add: VOLLEYBALL_SKILLS_def)
  have pre: "stats_df ?st = Some ?df \<and> df_index ?df = players ?st \<and>
             set (df_columns ?df) = set VOLLEYBALL_SKILLS \<and> distinct (df_columns ?df)"
    by (simp add: pl loc_increment_index loc_increment_columns create_index create_columns
          skills_distinct)
  from reset_rebuilds_ledger[OF r] obtain df' where
    d: "stats_df st' = Some df'"
    and z: "\<forall>i < length (players ?st). \<forall>c \<in> set VOLLEYBALL_SKILLS. cell df' i c = Some (Int64 0)"
    and same: "\<forall>df. stats_df ?st = Some df \<and> df_index df = players ?st \<and>
                 set (df_columns df) = set VOLLEYBALL_SKILLS \<and> distinct (df_columns df)
              \<longrightarrow> set (cell_labels df') = set (cell_labels df) \<and>
                  length (cell_labels df') = length (cell_labels df)"
    by blast
  have "cell df' 1 ''Kill'' = Some (Int64 0)" using z k pl by simp
  moreover have "set (cell_labels df') = set (cell_labels ?df)" using same pre by blast
  ultimately show ?thesis using before d r by (simp add: ledger_cell_def ledger_labels_def)
qed

text \<open>A column that only the durable data has is gone after the reset.\<close>

theorem reset_rebuilds_ledger_counterexample:
  "(''Ann'', ''Dig'') \<in> set (ledger_labels
       (load_team 7 [''Ann''] \<lparr>df_index = [''Ann''], df_data = [(''Dig'', [Int64 3])]\<rparr> initial_session)) \<and>
   ledger_cell
       (load_team 7 [''Ann''] \<lparr>df_index = [''Ann''], df_data = [(''Dig'', [Int64 3])]\<rparr> initial_session)
       0 ''Dig'' = Some (Int64 3) \<and>
   (''Ann'', ''Dig'') \<notin> set (ledger_labels (fst (reset_stats_button
       (load_team 7 [''Ann''] \<lparr>df_index = [''Ann''], df_data = [(''Dig'', [Int64 3])]\<rparr> initial_session)
       unreachable_store))) \<and>
   ledger_cell (fst (reset_stats_button
       (load_team 7 [''Ann''] \<lparr>df_index = [''Ann''], df_data = [(''Dig'', [Int64 3])]\<rparr> initial_session)
       unreachable_store))
       0 ''Dig'' = None"
  by code_simp

text \<open>
  Claim C10. The dropdown path submits the selected player's name, a space and the selected
  skill. When a player listed before the selected one has a name whose lowercased form is a
  substring of that lowercased command, the handler updates the row of a player listed before
  the selected one (the first whose name occurs in the command) and leaves every row of the
  selected player as it was. With the roster Ann, Joanne, selecting Joanne and Kill counts the
  kill for Ann.
\<close>

theorem dropdown_earlier_player_wins:
  assumes "add_stat_from_dropdowns (Some selected) (Some skill) st db = (out, st', db')"
    and "selected \<in> set (players st)" and "skill \<in> set VOLLEYBALL_SKILLS"
    and "\<forall>p \<in> set (players st). \<exists>c \<in> set p. \<not> isspace c"
    and "ledger_complete st"
    and "q \<in> set (takeWhile (\<lambda>x. x \<noteq> selected) (players st))"
    and "str_in (lower q) (lower (selected @ '' '' @ skill))"
  shows "\<exists>p s df df'.
           out = Some (Updated p s) \<and> p \<noteq> selected \<and>
           p \<in> set (takeWhile (\<lambda>x. x \<noteq> selected) (players st)) \<and>
           is_first_match (players st) (selected @ '' '' @ skill) p \<and>
           stats_df st = Some df \<and> stats_df st' = Some df' \<and>
           (\<forall>i c. cell df' i c =
              map_option (\<lambda>v. if df_index df ! i = p \<and> c = s then add_one v else v) (cell df i c)) \<and>
           (\<forall>i c. df_index df ! i = selected \<longrightarrow> cell df' i c = cell df i c)"
proof -
  let ?c = "selected @ '' '' @ skill"
  have sel_vis: "\<exists>c \<in> set selected. \<not> isspace c" using assms(2,4) by blast
  have sk_vis: "\<exists>c \<in> set skill. \<not> isspace c" using assms(3) skills_visible by blast
  have ne: "selected \<noteq> []" "skill \<noteq> []" using sel_vis sk_vis by auto
  obtain o1 where r: "handle_voice_command (PyStr ?c) st db = (o1, st', db')" and o: "out = Some o1"
    using assms(1) ne by (auto simp: add_stat_from_dropdowns_def split: prod.splits)
  have w: "2 \<le> length (split (lower (strip ?c)))" using two_words[OF sel_vis sk_vis] .
  have qin: "q \<in> set (players st)" using assms(6) by (auto dest: set_takeWhileD)
  then have "first_match (players st) ?c \<noteq> None"
    using assms(7) by (auto simp: first_match_None_iff)
  then obtain p where "first_match (players st) ?c = Some p" by auto
  then have fp: "is_first_match (players st) ?c p" by (simp add: first_match_Some_iff)
  then have pin: "p \<in> set (players st)"
    and nob: "\<forall>r \<in> set (takeWhile (\<lambda>x. x \<noteq> p) (players st)). \<not> str_in (lower r) (lower ?c)"
    by (simp_all add: is_first_match_def)
  have before: "p \<in> set (takeWhile (\<lambda>x. x \<noteq> selected) (players st))"
    using first_listed_before[of q selected "players st" "\<lambda>r. str_in (lower r) (lower ?c)" p]
      assms(6,7) pin nob by blast
  then have diff: "p \<noteq> selected" by (auto dest: set_takeWhileD)
  have pne: "p \<noteq> []" using pin assms(4) by auto
  have "str_in (lower skill) (lower ?c)"
    using str_in_suffix[of skill "selected @ '' ''"] by simp
  then have "first_match VOLLEYBALL_SKILLS ?c \<noteq> None"
    using assms(3) by (auto simp: first_match_None_iff)
  then obtain s where "first_match VOLLEYBALL_SKILLS ?c = Some s" by auto
  then have fs: "is_first_match VOLLEYBALL_SKILLS ?c s" by (simp add: first_match_Some_iff)
  have "resolution (fst (handle_voice_command (PyStr ?c) st db)) = Some (p, s)"
    unfolding handle_resolution_iff using w pne fp fs by simp
  then have res: "resolution o1 = Some (p, s)" using r by simp
  from assms(5) obtain df where df: "stats_df st = Some df"
    and rows: "set (players st) \<subseteq> set (df_index df)"
    and cols: "set VOLLEYBALL_SKILLS \<subseteq> set (df_columns df)"
    by (auto simp: ledger_complete_def split: option.splits)
  have p: "p \<in> set (df_index df)" and s: "s \<in> set (df_columns df)"
    using pin fs rows cols by (auto simp: is_first_match_def)
  from handle_hit[OF r res df p s]
  have upd: "o1 = Updated p s" "stats_df st' = Some (loc_increment df p s)" by simp_all
  have keep: "\<forall>i c. df_index df ! i = selected \<longrightarrow>
                 cell (loc_increment df p s) i c = cell df i c"
    using diff by (auto simp: loc_increment_cell option.map_ident)
  show ?thesis
    using o upd diff before fp df keep by (simp add: loc_increment_cell)
qed

theorem dropdown_earlier_player_wins_witness:
  "''Ann'' \<in> set (takeWhile (\<lambda>x. x \<noteq> ''Joanne'') [''Ann'', ''Joanne'']) \<and>
   str_in (lower ''Ann'') (lower (''Joanne'' @ '' '' @ ''Kill'')) \<and>
   fst (add_stat_from_dropdowns (Some ''Joanne'') (Some ''Kill'')
          (start_in_memory [''Ann'', ''Joanne''] initial_session) unreachable_store)
     = Some (Updated ''Ann'' ''Kill'') \<and>
   ledger_cell (fst (snd (add_stat_from_dropdowns (Some ''Joanne'') (Some ''Kill'')
          (start_in_memory [''Ann'', ''Joanne''] initial_session) unreachable_store))) 0 ''Kill''
     = Some (Int64 1) \<and>
   ledger_cell (fst (snd (add_stat_from_dropdowns (Some ''Joanne'') (Some ''Kill'')
          (start_in_memory [''Ann'', ''Joanne''] initial_session) unreachable_store))) 1 ''Kill''
     = Some (Int64 0)"
proof -
  let ?st = "start_in_memory [''Ann'', ''Joanne''] initial_session"
  obtain out st' db' where
    r: "add_stat_from_dropdowns (Some ''Joanne'') (Some ''Kill'') ?st unreachable_store = (out, st', db')"
    using prod_cases3 by blast
  have pl: "players ?st = [''Ann'', ''Joanne'']" by (simp add: start_in_memory_def)
  have sel: "''Joanne'' \<in> set (players ?st)" by (simp add: pl)
  have sk: "''Kill'' \<in> set VOLLEYBALL_SKILLS" by (simp add: VOLLEYBALL_SKILLS_def)
  have vis: "\<forall>p \<in> set (players ?st). \<exists>c \<in> set p. \<not> isspace c"
    by (simp add: pl isspace_def)
  have lc: "ledger_complete ?st" by code_simp
  have q: "''Ann'' \<in> set (takeWhile (\<lambda>x. x \<noteq> ''Joanne'') (players ?st))" by (simp add: pl)
  have m: "str_in (lower ''Ann'') (lower (''Joanne'' @ '' '' @ ''Kill''))" by code_simp
  have df0: "stats_df ?st = Some (create_stats_dataframe [''Ann'', ''Joanne''])"
    by (simp add: start_in_memory_def)
  from dropdown_earlier_player_wins[OF r sel sk vis lc q m]
  obtain p s df df' where
    o: "out = Some (Updated p s)" and pb: "p \<in> set (takeWhile (\<lambda>x. x \<noteq> ''Joanne'') (players ?st))"
    and d: "stats_df ?st = Some df" and d': "stats_df st' = Some df'"
    and inc: "\<forall>i c. cell df' i c =
              map_option (\<lambda>v. if df_index df ! i = p \<and> c = s then add_one v else v) (cell df i c)"
    and keep: "\<forall>i c. df_index df ! i = ''Joanne'' \<longrightarrow> cell df' i c = cell df i c"
    by blast
  have p: "p = ''Ann''" using pb by (simp add: pl)
  have dfe: "df = create_stats_dataframe [''Ann'', ''Joanne'']" using d df0 by simp
  have "fst (add_stat_from_dropdowns (Some ''Joanne'') (Some ''Kill'') ?st unreachable_store)
          = Some (Updated ''Ann'' ''Kill'')"
    by code_simp
  then have s: "s = ''Kill''" using r o by simp
  have c0: "cell df' 0 ''Kill'' = Some (Int64 1)"
    using inc p s dfe by (simp add: create_cell create_index sk)
  have c1: "cell df' 1 ''Kill'' = Some (Int64 0)"
    using keep dfe by (simp add: create_cell create_index sk)
  show ?thesis using q m r o p s d' c0 c1 by (simp add: pl ledger_cell_def)
qed

end
